theory Spec2Isabelle
  imports Main "HOL-Library.Sublist" "HOL-Library.AList"
begin

section \<open>Python string primitives used by the script\<close>

text \<open>
  Strings are byte strings (\<^typ>\<open>char list\<close>).  The character classes below are
  the ASCII part of Python's \<^verbatim>\<open>str\<close> methods: \<^verbatim>\<open>lower\<close> and \<^verbatim>\<open>upper\<close> move
  only the 26 letters, \<^verbatim>\<open>isdigit\<close> knows \<^verbatim>\<open>0\<close> to \<^verbatim>\<open>9\<close>, and \<^verbatim>\<open>strip\<close> removes the
  ASCII white space (tab, line feed, vertical tab, form feed, carriage return,
  the separators 28 to 31 and the blank).
\<close>

definition lower_char :: "char \<Rightarrow> char" where
  "lower_char c =
     (let n = (of_char c :: nat) in if 65 \<le> n \<and> n \<le> 90 then char_of (n + 32) else c)"

definition upper_char :: "char \<Rightarrow> char" where
  "upper_char c =
     (let n = (of_char c :: nat) in if 97 \<le> n \<and> n \<le> 122 then char_of (n - 32) else c)"

definition lower :: "string \<Rightarrow> string" where
  "lower s = map lower_char s"

definition upper :: "string \<Rightarrow> string" where
  "upper s = map upper_char s"

definition isspace :: "char \<Rightarrow> bool" where
  "isspace c = (let n = (of_char c :: nat) in (9 \<le> n \<and> n \<le> 13) \<or> (28 \<le> n \<and> n \<le> 32))"

definition is_digit_char :: "char \<Rightarrow> bool" where
  "is_digit_char c = (let n = (of_char c :: nat) in 48 \<le> n \<and> n \<le> 57)"

text \<open>\<^verbatim>\<open>s.isdigit()\<close>: false on the empty string.\<close>

definition isdigit :: "string \<Rightarrow> bool" where
  "isdigit s = (s \<noteq> [] \<and> list_all is_digit_char s)"

text \<open>\<^verbatim>\<open>s.strip()\<close>: white space removed at both ends.\<close>

definition lstrip :: "string \<Rightarrow> string" where
  "lstrip s = dropWhile isspace s"

definition rstrip :: "string \<Rightarrow> string" where
  "rstrip s = rev (dropWhile isspace (rev s))"

definition strip :: "string \<Rightarrow> string" where
  "strip s = lstrip (rstrip s)"

text \<open>\<^verbatim>\<open>s.endswith(suf)\<close>.\<close>

definition endswith :: "string \<Rightarrow> string \<Rightarrow> bool" where
  "endswith s suf = prefix (rev suf) (rev s)"

text \<open>\<^verbatim>\<open>sub in s\<close>: \<open>sub\<close> occurs in \<open>s\<close> as a contiguous piece.\<close>

fun contains :: "string \<Rightarrow> string \<Rightarrow> bool" where
  "contains [] sub = (sub = [])"
| "contains (c # cs) sub = (prefix sub (c # cs) \<or> contains cs sub)"

text \<open>
  \<^verbatim>\<open>s.replace(old, new)\<close>: the occurrences of \<open>old\<close> are found from left to right
  and do not overlap.  With an empty \<open>old\<close> Python puts \<open>new\<close> before every
  character and at the end.
\<close>

function replace :: "string \<Rightarrow> string \<Rightarrow> string \<Rightarrow> string" where
  "replace s [] new = new @ concat (map (\<lambda>c. c # new) s)"
| "replace [] (d # ds) new = []"
| "replace (c # cs) (d # ds) new =
     (if prefix (d # ds) (c # cs) then new @ replace (drop (length ds) cs) (d # ds) new
      else c # replace cs (d # ds) new)"
  by pat_completeness auto
termination
  by (relation "measure (\<lambda>(s, old, new). length s)") auto

text \<open>
  \<^verbatim>\<open>s.split(sep)\<close> for a non-empty separator: the pieces between the occurrences
  of \<open>sep\<close>, found from left to right; the result is never empty.  \<open>split_acc\<close>
  carries the piece being read, reversed.
\<close>

function split_acc :: "string \<Rightarrow> string \<Rightarrow> string \<Rightarrow> string list" where
  "split_acc acc [] sep = [rev acc]"
| "split_acc acc (c # cs) sep =
     (if sep \<noteq> [] \<and> prefix sep (c # cs)
      then rev acc # split_acc [] (drop (length sep - 1) cs) sep
      else split_acc (c # acc) cs sep)"
  by pat_completeness auto
termination
  by (relation "measure (\<lambda>(acc, s, sep). length s)") auto

definition split :: "string \<Rightarrow> string \<Rightarrow> string list" where
  "split s sep = split_acc [] s sep"

text \<open>
  \<^verbatim>\<open>requests.utils.quote(s, safe='')\<close>: letters, digits and \<^verbatim>\<open>_.-~\<close> are kept, every
  other byte becomes \<^verbatim>\<open>%XX\<close> with upper-case hexadecimal digits.
\<close>

definition is_alpha_char :: "char \<Rightarrow> bool" where
  "is_alpha_char c =
     (let n = (of_char c :: nat) in (65 \<le> n \<and> n \<le> 90) \<or> (97 \<le> n \<and> n \<le> 122))"

definition unreserved :: "char \<Rightarrow> bool" where
  "unreserved c = (is_alpha_char c \<or> is_digit_char c \<or> c \<in> set ''_.-~'')"

definition hex_digit :: "nat \<Rightarrow> char" where
  "hex_digit n = ''0123456789ABCDEF'' ! (n mod 16)"

definition quote_char :: "char \<Rightarrow> string" where
  "quote_char c =
     (if unreserved c then [c]
      else [CHR ''%'', hex_digit ((of_char c :: nat) div 16), hex_digit ((of_char c :: nat) mod 16)])"

definition quote :: "string \<Rightarrow> string" where
  "quote s = concat (map quote_char s)"

section \<open>Configuration constants\<close>

definition GITLAB_URL :: string where
  "GITLAB_URL = ''https://code.swecha.org''"

definition REQUIRED_FILES :: "string list" where
  "REQUIRED_FILES = [''README.md'', ''CONTRIBUTING.md'', ''CHANGELOG.md'', ''LICENSE'']"

definition FLEXIBLE_EXTENSION_FILES :: "string list" where
  "FLEXIBLE_EXTENSION_FILES = [''CHANGELOG'']"

section \<open>Template patterns and \<^verbatim>\<open>re.match\<close>\<close>

text \<open>
  The patterns of the script use four constructs of Python's regular expressions:
  a literal character (also the escaped dot), \<^verbatim>\<open>.*\<close>, and the anchor \<^verbatim>\<open>$\<close>.
  A pattern is the list of its items.
\<close>

datatype rx = Lit char | DotStar | Dollar

fun lits :: "string \<Rightarrow> rx list" where
  "lits s = map Lit s"

text \<open>
  \<^verbatim>\<open>re.match(pattern, s, re.IGNORECASE)\<close> is true when the pattern matches at the
  \<^emph>\<open>beginning\<close> of \<open>s\<close> (it need not reach the end of \<open>s\<close>, and it does not search
  for a later starting point).  A literal matches its character up to case; the
  dot matches every character but the line feed; \<^verbatim>\<open>$\<close> matches at the end of the
  string and before a line feed that ends it.
\<close>

fun re_match :: "rx list \<Rightarrow> string \<Rightarrow> bool" where
  "re_match [] s = True"
| "re_match (Lit c # p) [] = False"
| "re_match (Lit c # p) (x # s) = (lower_char c = lower_char x \<and> re_match p s)"
| "re_match (Dollar # p) s = ((s = [] \<or> s = [CHR 0x0A]) \<and> re_match p s)"
| "re_match (DotStar # p) [] = re_match p []"
| "re_match (DotStar # p) (x # s) =
     ((x \<noteq> CHR 0x0A \<and> re_match (DotStar # p) s) \<or> re_match p (x # s))"

text \<open>
  \<^verbatim>\<open>issue.*template.*\.md$\<close>, \<^verbatim>\<open>issue.*templates.*\.md$\<close>, \<^verbatim>\<open>issuetemplate.*\.md$\<close>,
  \<^verbatim>\<open>issuetemplates.*\.md$\<close>.
\<close>

definition ISSUE_TEMPLATE_PATTERNS :: "rx list list" where
  "ISSUE_TEMPLATE_PATTERNS =
     [lits ''issue'' @ [DotStar] @ lits ''template'' @ [DotStar] @ lits ''.md'' @ [Dollar],
      lits ''issue'' @ [DotStar] @ lits ''templates'' @ [DotStar] @ lits ''.md'' @ [Dollar],
      lits ''issuetemplate'' @ [DotStar] @ lits ''.md'' @ [Dollar],
      lits ''issuetemplates'' @ [DotStar] @ lits ''.md'' @ [Dollar]]"

text \<open>
  \<^verbatim>\<open>merge.*request.*template.*\.md$\<close>, \<^verbatim>\<open>merge.*request.*templates.*\.md$\<close>,
  \<^verbatim>\<open>mr.*template.*\.md$\<close>, \<^verbatim>\<open>mr.*templates.*\.md$\<close>, \<^verbatim>\<open>mergerequesttemplate.*\.md$\<close>,
  \<^verbatim>\<open>mergerequesttemplates.*\.md$\<close>.
\<close>

definition MR_TEMPLATE_PATTERNS :: "rx list list" where
  "MR_TEMPLATE_PATTERNS =
     [lits ''merge'' @ [DotStar] @ lits ''request'' @ [DotStar] @ lits ''template''
        @ [DotStar] @ lits ''.md'' @ [Dollar],
      lits ''merge'' @ [DotStar] @ lits ''request'' @ [DotStar] @ lits ''templates''
        @ [DotStar] @ lits ''.md'' @ [Dollar],
      lits ''mr'' @ [DotStar] @ lits ''template'' @ [DotStar] @ lits ''.md'' @ [Dollar],
      lits ''mr'' @ [DotStar] @ lits ''templates'' @ [DotStar] @ lits ''.md'' @ [Dollar],
      lits ''mergerequesttemplate'' @ [DotStar] @ lits ''.md'' @ [Dollar],
      lits ''mergerequesttemplates'' @ [DotStar] @ lits ''.md'' @ [Dollar]]"

text \<open>The loop over the patterns of \<^verbatim>\<open>match_template_patterns\<close>.\<close>

fun match_any :: "string \<Rightarrow> rx list list \<Rightarrow> bool" where
  "match_any filename_lower [] = False"
| "match_any filename_lower (pattern # patterns) =
     (if re_match pattern filename_lower then True else match_any filename_lower patterns)"

definition match_template_patterns :: "string \<Rightarrow> rx list list \<Rightarrow> bool" where
  "match_template_patterns filename patterns =
     (if \<not> endswith (lower filename) ''.md'' then False
      else match_any (lower filename) patterns)"

section \<open>The hosting platform as seen through \<^verbatim>\<open>requests.get\<close>\<close>

text \<open>
  The script reads the platform through five endpoints.  A server is the answer
  it gives to each request: a status code and, where the script reads it, the
  decoded body.  A body is read only after its status was compared with 200.
  The project is named in a request by the text the script puts in the URL (a
  decimal id or a quoted path), so \<open>project_id\<close> is that text.
\<close>

text \<open>
  A JSON field as \<^verbatim>\<open>dict.get\<close> finds it: the key is missing, its value is
  \<^verbatim>\<open>null\<close>, or it has a value.
\<close>

datatype 'a field = Absent | Null | Present 'a

record project =
  project_id_of :: nat
  name_with_namespace :: string
  description :: "string field"
  tag_list :: "string list field"

record tree_entry =
  entry_name :: string
  entry_type :: string

record user =
  user_id :: nat

datatype param = PBool bool | PInt nat | PStr string

type_synonym params = "(string \<times> param) list"

record server =
  files_endpoint :: "string \<Rightarrow> string \<Rightarrow> string \<Rightarrow> nat"
  tree_endpoint :: "string \<Rightarrow> params \<Rightarrow> nat \<times> tree_entry list"
  project_endpoint :: "string \<Rightarrow> nat \<times> project"
  users_endpoint :: "string \<Rightarrow> nat \<times> user list"
  projects_endpoint :: "params \<Rightarrow> nat \<times> project list"

text \<open>
  What a run does besides returning: the requests it sends, in order, and the
  warning of the pagination limit (\<^verbatim>\<open>st.warning\<close>).
\<close>

datatype event =
    GetFile string string string
  | GetTree string params
  | GetProject string
  | GetUsers string
  | GetProjects params
  | Warning string

type_synonym 'a io = "'a \<times> event list"

definition is_request :: "event \<Rightarrow> bool" where
  "is_request e = (case e of Warning m \<Rightarrow> False | _ \<Rightarrow> True)"

definition requests :: "event list \<Rightarrow> event list" where
  "requests t = filter is_request t"

datatype py_error = TypeError

section \<open>File presence\<close>

text \<open>
  \<^verbatim>\<open>file_exists\<close>: the loop over the branches \<^verbatim>\<open>['master', 'main']\<close>, one lookup
  per branch, returning at the first answer 200.
\<close>

fun file_exists_branches :: "server \<Rightarrow> string \<Rightarrow> string \<Rightarrow> string list \<Rightarrow> bool io" where
  "file_exists_branches srv project_id file_path [] = (False, [])"
| "file_exists_branches srv project_id file_path (branch # branches) =
     (if files_endpoint srv project_id (quote file_path) branch = 200
      then (True, [GetFile project_id (quote file_path) branch])
      else (let (r, t) = file_exists_branches srv project_id file_path branches
            in (r, GetFile project_id (quote file_path) branch # t)))"

definition file_exists :: "server \<Rightarrow> string \<Rightarrow> string \<Rightarrow> bool io" where
  "file_exists srv project_id file_path =
     file_exists_branches srv project_id file_path [''master'', ''main'']"

text \<open>The list \<^verbatim>\<open>variations\<close> of \<^verbatim>\<open>file_exists_flexible\<close>.\<close>

definition variations :: "string \<Rightarrow> string list" where
  "variations base_name =
     [upper base_name,
      lower base_name,
      base_name @ ''.txt'',
      upper base_name @ ''.txt'',
      lower base_name @ ''.txt'',
      base_name @ ''.rst'',
      upper base_name @ ''.rst'',
      lower base_name @ ''.rst'']"

text \<open>The loop \<^verbatim>\<open>for variation in variations\<close>, returning at the first file found.\<close>

fun file_exists_any :: "server \<Rightarrow> string \<Rightarrow> string list \<Rightarrow> bool io" where
  "file_exists_any srv project_id [] = (False, [])"
| "file_exists_any srv project_id (variation # vs) =
     (let (found, t) = file_exists srv project_id variation
      in if found then (True, t)
         else (let (r, t') = file_exists_any srv project_id vs in (r, t @ t')))"

definition file_exists_flexible :: "server \<Rightarrow> string \<Rightarrow> string \<Rightarrow> bool io" where
  "file_exists_flexible srv project_id file_path =
     (let (found, t) = file_exists srv project_id file_path
      in if found then (True, t)
         else (let base_name = replace file_path ''.md'' []
               in if base_name \<in> set FLEXIBLE_EXTENSION_FILES
                  then (let (found', t') = file_exists srv project_id base_name
                        in if found' then (True, t @ t')
                           else (let (r, t'') = file_exists_any srv project_id (variations base_name)
                                 in (r, t @ t' @ t'')))
                  else (False, t)))"

section \<open>Template directory\<close>

definition tree_params :: params where
  "tree_params = [(''path'', PStr ''.gitlab''), (''recursive'', PBool True), (''per_page'', PInt 100)]"

text \<open>The loop over the file names of \<^verbatim>\<open>directory_contains_templates\<close>.\<close>

fun any_template :: "string list \<Rightarrow> rx list list \<Rightarrow> bool" where
  "any_template [] template_patterns = False"
| "any_template (filename # files) template_patterns =
     (if match_template_patterns filename template_patterns then True
      else any_template files template_patterns)"

definition directory_contains_templates :: "server \<Rightarrow> string \<Rightarrow> rx list list \<Rightarrow> bool io" where
  "directory_contains_templates srv project_id template_patterns =
     (let (status_code, body) = tree_endpoint srv project_id tree_params;
          t = [GetTree project_id tree_params]
      in if status_code \<noteq> 200 then (False, t)
         else (let files = map entry_name (filter (\<lambda>f. entry_type f = ''blob'') body)
               in (any_template files template_patterns, t)))"

section \<open>Pagination\<close>

text \<open>
  \<^verbatim>\<open>current_params = params.copy(); current_params.update({"page": page, "per_page": per_page})\<close>.
  A dictionary is an association list in insertion order; an update replaces the
  value of a key that is there and appends a new key.
\<close>

definition per_page :: nat where
  "per_page = 100"

definition current_params :: "params \<Rightarrow> nat \<Rightarrow> params" where
  "current_params params page =
     AList.update ''per_page'' (PInt per_page) (AList.update ''page'' (PInt page) params)"

text \<open>The text of the warning, without the warning sign in front of it.\<close>

definition pagination_warning :: string where
  "pagination_warning = ''Reached pagination limit. Some projects might not be displayed.''"

text \<open>
  The \<^verbatim>\<open>while True\<close> loop of \<^verbatim>\<open>get_all_projects_with_pagination\<close>, with the page
  number and the list collected so far.  It leaves at a status other than 200, at
  an empty page, after a page shorter than \<open>per_page\<close>, and when the next page
  number is above 1000.
\<close>

function pages_loop :: "server \<Rightarrow> params \<Rightarrow> nat \<Rightarrow> project list \<Rightarrow> (project list) io" where
  "pages_loop srv params page all_projects =
     (let (status_code, projects) = projects_endpoint srv (current_params params page);
          req = GetProjects (current_params params page)
      in if status_code \<noteq> 200 then (all_projects, [req])
         else if projects = [] then (all_projects, [req])
         else if length projects < per_page then (all_projects @ projects, [req])
         else if page + 1 > 1000 then (all_projects @ projects, [req, Warning pagination_warning])
         else (let (r, t) = pages_loop srv params (page + 1) (all_projects @ projects)
               in (r, req # t)))"
  by pat_completeness auto
termination
  by (relation "measure (\<lambda>(srv, params, page, all_projects). 1001 - page)") auto

definition get_all_projects_with_pagination :: "server \<Rightarrow> params \<Rightarrow> (project list) io" where
  "get_all_projects_with_pagination srv params = pages_loop srv params 1 []"

section \<open>Input classification\<close>

definition membership_params :: params where
  "membership_params = [(''membership'', PBool True), (''order_by'', PStr ''last_activity_at'')]"

text \<open>
  \<^verbatim>\<open>get_contributed_projects\<close>.  The user name is put into the URL as it is.  The
  id of the first user found is read into \<open>user_id\<close> and the listing is
  requested with \<open>membership_params\<close>.
\<close>

definition get_contributed_projects :: "server \<Rightarrow> string \<Rightarrow> (project list) io" where
  "get_contributed_projects srv username =
     (let (status_code, users) = users_endpoint srv username;
          t = [GetUsers username]
      in if status_code \<noteq> 200 \<or> users = [] then ([], t)
         else (let uid = user_id (hd users);
                   (r, t') = get_all_projects_with_pagination srv membership_params
               in (r, t @ t')))"

text \<open>
  \<^verbatim>\<open>get_project_by_id_or_url\<close>; \<^verbatim>\<open>None\<close> is the value \<open>None\<close>.  The first piece of
  a split exists, since a split is never empty.
\<close>

definition get_project_by_id_or_url :: "server \<Rightarrow> string \<Rightarrow> (project option) io" where
  "get_project_by_id_or_url srv project_input =
     (if isdigit project_input
      then (let (status_code, body) = project_endpoint srv project_input
            in (if status_code = 200 then Some body else None, [GetProject project_input]))
      else if contains project_input GITLAB_URL
      then (let path = hd (split (replace project_input (GITLAB_URL @ ''/'') []) ''/-/'');
                encoded = quote path;
                (status_code, body) = project_endpoint srv encoded
            in (if status_code = 200 then Some body else None, [GetProject encoded]))
      else (None, []))"

datatype classified = Project project | Projects "project list" | Error string

text \<open>
  \<^verbatim>\<open>determine_input_type_and_process\<close>.  A project that was fetched is a non-empty
  JSON object, so \<^verbatim>\<open>if project\<close> asks whether the lookup returned one.
\<close>

definition determine_input_type_and_process :: "server \<Rightarrow> string \<Rightarrow> classified io" where
  "determine_input_type_and_process srv raw_input =
     (let input_value = strip raw_input
      in if contains input_value GITLAB_URL
         then (case get_project_by_id_or_url srv input_value of
                 (Some p, t) \<Rightarrow> (Project p, t)
               | (None, t) \<Rightarrow> (Error ''Could not fetch project from the provided URL'', t))
         else if isdigit input_value
         then (case get_project_by_id_or_url srv input_value of
                 (Some p, t) \<Rightarrow> (Project p, t)
               | (None, t) \<Rightarrow> (Error (''No project found with ID: '' @ input_value), t))
         else (case get_contributed_projects srv input_value of
                 (projects, t) \<Rightarrow>
                   if projects \<noteq> [] then (Projects projects, t)
                   else (Error (''No projects found for username: '' @ input_value), t)))"

section \<open>Compliance status\<close>

text \<open>
  \<^verbatim>\<open>d.get(key)\<close> is \<^verbatim>\<open>None\<close> for a missing key and for \<^verbatim>\<open>null\<close>.  Strings and lists
  are truthy when they are not empty, \<^verbatim>\<open>None\<close> is falsy, and \<^verbatim>\<open>len(None)\<close> raises
  \<^verbatim>\<open>TypeError\<close>.
\<close>

definition dict_get :: "'a field \<Rightarrow> 'a option" where
  "dict_get f = (case f of Present v \<Rightarrow> Some v | _ \<Rightarrow> None)"

definition py_bool :: "'a list option \<Rightarrow> bool" where
  "py_bool v = (case v of None \<Rightarrow> False | Some xs \<Rightarrow> xs \<noteq> [])"

definition py_len :: "'a list option \<Rightarrow> py_error + nat" where
  "py_len v = (case v of None \<Rightarrow> Inl TypeError | Some xs \<Rightarrow> Inr (length xs))"

text \<open>\<^verbatim>\<open>bool(x) and len(x) > 0\<close>: the length is taken only when \<^verbatim>\<open>bool(x)\<close> is true.\<close>

definition tags_present_value :: "'a list option \<Rightarrow> py_error + bool" where
  "tags_present_value v =
     (if py_bool v then (case py_len v of Inl e \<Rightarrow> Inl e | Inr n \<Rightarrow> Inr (0 < n))
      else Inr False)"

type_synonym status = "(string \<times> bool) list"

text \<open>The loop \<^verbatim>\<open>for file in REQUIRED_FILES\<close>, with the dictionary built so far.\<close>

fun check_required_files :: "server \<Rightarrow> string \<Rightarrow> string list \<Rightarrow> status \<Rightarrow> status io" where
  "check_required_files srv project_id [] status = (status, [])"
| "check_required_files srv project_id (file # files) status =
     (let (present, t) =
            (if replace file ''.md'' [] \<in> set FLEXIBLE_EXTENSION_FILES
             then file_exists_flexible srv project_id file
             else file_exists srv project_id file);
          (r, t') = check_required_files srv project_id files (AList.update file present status)
      in (r, t @ t'))"

definition get_compliance_status :: "server \<Rightarrow> string \<Rightarrow> (py_error + status) io" where
  "get_compliance_status srv project_id =
     (let (status0, t0) = check_required_files srv project_id REQUIRED_FILES [];
          (issue, t1) = directory_contains_templates srv project_id ISSUE_TEMPLATE_PATTERNS;
          status1 = AList.update ''.gitlab/issue_templates'' issue status0;
          (mr, t2) = directory_contains_templates srv project_id MR_TEMPLATE_PATTERNS;
          status2 = AList.update ''.gitlab/merge_request_templates'' mr status1;
          (status_code, project) = project_endpoint srv project_id;
          t = t0 @ t1 @ t2 @ [GetProject project_id]
      in if status_code \<noteq> 200 then (Inr [], t)
         else (let status3 = AList.update ''description_present''
                               (py_bool (dict_get (description project))) status2
               in case tags_present_value (dict_get (tag_list project)) of
                    Inl e \<Rightarrow> (Inl e, t)
                  | Inr tags \<Rightarrow> (Inr (AList.update ''tags_present'' tags status3), t)))"

section \<open>Names of the status entries and concrete platforms\<close>

text \<open>The keys of a status in the order in which \<^verbatim>\<open>get_compliance_status\<close> writes them.\<close>

definition STATUS_KEYS :: "string list" where
  "STATUS_KEYS =
     [''README.md'', ''CONTRIBUTING.md'', ''CHANGELOG.md'', ''LICENSE'',
      ''.gitlab/issue_templates'', ''.gitlab/merge_request_templates'',
      ''description_present'', ''tags_present'']"

text \<open>
  A small platform used to run the functions: project 7, \<^verbatim>\<open>group/proj\<close>, keeps its
  files on \<^verbatim>\<open>main\<close> only, its change log is \<^verbatim>\<open>changelog.txt\<close>, its description is
  \<^verbatim>\<open>null\<close>, and \<^verbatim>\<open>.gitlab\<close> holds the three files of the template example.
\<close>

definition demo_project :: project where
  "demo_project =
     \<lparr>project_id_of = 7, name_with_namespace = ''group / proj'',
      description = Null, tag_list = Present [''python'']\<rparr>"

text \<open>Project 8 has neither a description nor a tag list in its record.\<close>

definition bare_project :: project where
  "bare_project =
     \<lparr>project_id_of = 8, name_with_namespace = ''group / bare'',
      description = Absent, tag_list = Absent\<rparr>"

definition demo_tree :: "tree_entry list" where
  "demo_tree =
     [\<lparr>entry_name = ''issue_templates'', entry_type = ''tree''\<rparr>,
      \<lparr>entry_name = ''0001-bug-issue-template.md'', entry_type = ''blob''\<rparr>,
      \<lparr>entry_name = ''random.md'', entry_type = ''blob''\<rparr>,
      \<lparr>entry_name = ''merge_request_template.MD'', entry_type = ''blob''\<rparr>]"

definition demo_server :: server where
  "demo_server =
     \<lparr>files_endpoint = (\<lambda>project_id path branch.
        if branch = ''main''
           \<and> path \<in> set [''README.md'', ''CONTRIBUTING.md'', ''changelog.txt'', ''LICENSE'']
        then 200 else 404),
      tree_endpoint = (\<lambda>project_id ps. (200, demo_tree)),
      project_endpoint = (\<lambda>x.
        if x = ''7'' \<or> x = ''group%2Fproj'' then (200, demo_project)
        else if x = ''8'' then (200, bare_project)
        else (404, demo_project)),
      users_endpoint = (\<lambda>u.
        if u = ''alice'' then (200, [\<lparr>user_id = 1\<rparr>])
        else if u = ''bob'' then (200, [\<lparr>user_id = 2\<rparr>])
        else (200, [])),
      projects_endpoint = (\<lambda>ps.
        if map_of ps ''page'' = Some (PInt 1) then (200, [demo_project]) else (200, []))\<rparr>"



text \<open>
  The paths that \<^verbatim>\<open>file_exists_flexible\<close> looks up for \<^verbatim>\<open>CHANGELOG.md\<close>, in order: the
  path itself, the bare name, and the eight variations.
\<close>

definition changelog_candidates :: "string list" where
  "changelog_candidates =
     [''CHANGELOG.md'', ''CHANGELOG'',
      ''CHANGELOG'', ''changelog'', ''CHANGELOG.txt'', ''CHANGELOG.txt'', ''changelog.txt'',
      ''CHANGELOG.rst'', ''CHANGELOG.rst'', ''changelog.rst'']"

text \<open>The items of a list up to and including the first one with a property.\<close>

fun upto_first :: "('a \<Rightarrow> bool) \<Rightarrow> 'a list \<Rightarrow> 'a list" where
  "upto_first P [] = []"
| "upto_first P (x # xs) = (if P x then [x] else x # upto_first P xs)"

text \<open>A file is on a branch of a project when its lookup there is answered with 200.\<close>

definition on_branch :: "server \<Rightarrow> string \<Rightarrow> string \<Rightarrow> string \<Rightarrow> bool" where
  "on_branch srv project_id file_path branch =
     (files_endpoint srv project_id (quote file_path) branch = 200)"

text \<open>A platform whose projects keep the four required files on \<^verbatim>\<open>main\<close> and nothing on \<^verbatim>\<open>master\<close>.\<close>

definition main_only_server :: server where
  "main_only_server =
     demo_server\<lparr>files_endpoint := (\<lambda>project_id path branch.
        if branch = ''main'' \<and> path \<in> set [''README.md'', ''CONTRIBUTING.md'', ''CHANGELOG.md'', ''LICENSE'']
        then 200 else 404)\<rparr>"

text \<open>
  A platform whose projects have the four files and a template of each kind, and
  whose project records are out of reach.
\<close>

definition template_tree :: "tree_entry list" where
  "template_tree =
     [\<lparr>entry_name = ''issue_template.md'', entry_type = ''blob''\<rparr>,
      \<lparr>entry_name = ''merge_request_template.md'', entry_type = ''blob''\<rparr>]"

definition no_metadata_server :: server where
  "no_metadata_server =
     main_only_server\<lparr>tree_endpoint := (\<lambda>project_id ps. (200, template_tree)),
                       project_endpoint := (\<lambda>x. (404, demo_project))\<rparr>"

text \<open>
  A listing endpoint that serves a list of projects in pages: page \<open>n\<close> (counted
  from 1) of size \<open>k\<close> holds the items \<open>(n - 1) * k\<close> to \<open>n * k - 1\<close>.
\<close>

definition page_of :: "'a list \<Rightarrow> nat \<Rightarrow> nat \<Rightarrow> 'a list" where
  "page_of items k n = take k (drop ((n - 1) * k) items)"

definition requested_page :: "params \<Rightarrow> nat" where
  "requested_page ps = (case map_of ps ''page'' of Some (PInt n) \<Rightarrow> n | _ \<Rightarrow> 1)"

definition requested_per_page :: "params \<Rightarrow> nat" where
  "requested_per_page ps = (case map_of ps ''per_page'' of Some (PInt n) \<Rightarrow> n | _ \<Rightarrow> 20)"

definition numbered_project :: "nat \<Rightarrow> project" where
  "numbered_project i =
     \<lparr>project_id_of = i, name_with_namespace = ''group / proj'',
      description = Null, tag_list = Absent\<rparr>"

text \<open>A platform that lists 250 projects, and one that answers every page with 101 projects.\<close>

definition listing_250 :: "project list" where
  "listing_250 = map numbered_project [0..<250]"

definition paged_server :: server where
  "paged_server =
     demo_server\<lparr>projects_endpoint := (\<lambda>ps.
        (200, page_of listing_250 (requested_per_page ps) (requested_page ps)))\<rparr>"

definition oversized_server :: server where
  "oversized_server =
     demo_server\<lparr>projects_endpoint := (\<lambda>ps. (200, replicate 101 demo_project))\<rparr>"

text \<open>The answer to the request for page \<open>n\<close>, and that request.\<close>

definition page_response :: "server \<Rightarrow> params \<Rightarrow> nat \<Rightarrow> nat \<times> project list" where
  "page_response srv params n = projects_endpoint srv (current_params params n)"

definition page_request :: "params \<Rightarrow> nat \<Rightarrow> event" where
  "page_request params n = GetProjects (current_params params n)"

text \<open>A full page: status 200 and at least \<open>per_page\<close> items.\<close>

definition full_page :: "server \<Rightarrow> params \<Rightarrow> nat \<Rightarrow> bool" where
  "full_page srv params n =
     (fst (page_response srv params n) = 200 \<and> per_page \<le> length (snd (page_response srv params n)))"

definition pages_body :: "server \<Rightarrow> params \<Rightarrow> nat \<Rightarrow> nat \<Rightarrow> project list" where
  "pages_body srv params i j = concat (map (\<lambda>n. snd (page_response srv params n)) [i..<j])"

text \<open>A platform that answers every page with 100 projects.\<close>

definition endless_server :: server where
  "endless_server =
     demo_server\<lparr>projects_endpoint := (\<lambda>ps. (200, replicate 100 demo_project))\<rparr>"

text \<open>A platform that serves one full page and fails at the second.\<close>

definition failing_server :: server where
  "failing_server =
     demo_server\<lparr>projects_endpoint := (\<lambda>ps.
        if requested_page ps = 1 then (200, replicate 100 demo_project) else (500, []))\<rparr>"



section \<open>Evaluation of characters\<close>

lemma char_eq_char_of: "(c = char_of (n::nat)) = ((of_char c :: nat) = n mod 256)"
  by (metis char_of_char of_char_of)

lemma char_of_eq_char: "(char_of (n::nat) = c) = ((of_char c :: nat) = n mod 256)"
  by (metis char_of_char of_char_of)

lemmas string_defs =
  quote_def quote_char_def unreserved_def is_alpha_char_def is_digit_char_def hex_digit_def
  lower_def upper_def lower_char_def upper_char_def char_eq_char_of char_of_eq_char endswith_def

section \<open>The compliance status\<close>

lemma tags_present_value_None: "tags_present_value None = Inr False"
  by (simp add: tags_present_value_def py_bool_def)

lemma tags_present_value_Some: "tags_present_value (Some xs) = Inr (xs \<noteq> [])"
  by (simp add: tags_present_value_def py_bool_def py_len_def)

lemma tags_present_value_total: "\<exists>b. tags_present_value v = Inr b"
  by (cases v) (auto simp: tags_present_value_None tags_present_value_Some)

lemma keys_required_files:
  "map fst (fst (check_required_files srv project_id REQUIRED_FILES [])) = REQUIRED_FILES"
  by (simp add: REQUIRED_FILES_def FLEXIBLE_EXTENSION_FILES_def Let_def case_prod_beta)

lemma get_compliance_status_failed:
  "fst (project_endpoint srv project_id) \<noteq> 200 \<Longrightarrow>
   fst (get_compliance_status srv project_id) = Inr []"
  by (simp add: get_compliance_status_def Let_def case_prod_beta)

lemma get_compliance_status_fetched:
  assumes "fst (project_endpoint srv project_id) = 200"
  shows "\<exists>st. fst (get_compliance_status srv project_id) = Inr st \<and> map fst st = STATUS_KEYS
    \<and> map_of st ''description_present''
        = Some (py_bool (dict_get (description (snd (project_endpoint srv project_id)))))
    \<and> Inr (the (map_of st ''tags_present''))
        = tags_present_value (dict_get (tag_list (snd (project_endpoint srv project_id))))"
proof -
  obtain b where b:
    "tags_present_value (dict_get (tag_list (snd (project_endpoint srv project_id)))) = Inr b"
    using tags_present_value_total by blast
  have k: "map fst (fst (check_required_files srv project_id REQUIRED_FILES [])) = REQUIRED_FILES"
    by (rule keys_required_files)
  show ?thesis
    using assms b k
    by (simp add: get_compliance_status_def Let_def case_prod_beta STATUS_KEYS_def
        update_keys update_conv' REQUIRED_FILES_def)
qed

text \<open>
  C3.  When the request for the project's own record is answered with a status
  other than 200, \<^verbatim>\<open>get_compliance_status\<close> returns the empty dictionary, whatever
  the file and template checks before it found: no partial status comes back.
\<close>

theorem metadata_failure_returns_empty_status:
  assumes "fst (project_endpoint srv project_id) \<noteq> 200"
  shows "fst (get_compliance_status srv project_id) = Inr []"
  using assms by (rule get_compliance_status_failed)

theorem metadata_failure_returns_empty_status_witness:
  "fst (check_required_files no_metadata_server ''7'' REQUIRED_FILES [])
     = [(''README.md'', True), (''CONTRIBUTING.md'', True), (''CHANGELOG.md'', True),
        (''LICENSE'', True)]
   \<and> fst (directory_contains_templates no_metadata_server ''7'' ISSUE_TEMPLATE_PATTERNS)
   \<and> fst (directory_contains_templates no_metadata_server ''7'' MR_TEMPLATE_PATTERNS)
   \<and> fst (project_endpoint no_metadata_server ''7'') \<noteq> 200
   \<and> fst (get_compliance_status no_metadata_server ''7'') = Inr []"
proof -
  have checks: "fst (check_required_files no_metadata_server ''7'' REQUIRED_FILES [])
     = [(''README.md'', True), (''CONTRIBUTING.md'', True), (''CHANGELOG.md'', True),
        (''LICENSE'', True)]
   \<and> fst (directory_contains_templates no_metadata_server ''7'' ISSUE_TEMPLATE_PATTERNS)
   \<and> fst (directory_contains_templates no_metadata_server ''7'' MR_TEMPLATE_PATTERNS)"
    by code_simp
  have h: "fst (project_endpoint no_metadata_server ''7'') \<noteq> 200"
    by (simp add: no_metadata_server_def)
  from metadata_failure_returns_empty_status [OF h] checks h show ?thesis
    by blast
qed

text \<open>
  C4.  A status that \<^verbatim>\<open>get_compliance_status\<close> returns and that is not empty has
  exactly the eight keys of the checklist, each once: the four required files,
  the two template keys and the two metadata flags; every value is a Boolean.
\<close>

theorem nonempty_status_has_the_eight_keys:
  assumes "fst (get_compliance_status srv project_id) = Inr st" and "st \<noteq> []"
  shows "map fst st =
           [''README.md'', ''CONTRIBUTING.md'', ''CHANGELOG.md'', ''LICENSE'',
            ''.gitlab/issue_templates'', ''.gitlab/merge_request_templates'',
            ''description_present'', ''tags_present'']
         \<and> distinct (map fst st) \<and> length st = 8"
proof -
  have ok: "fst (project_endpoint srv project_id) = 200"
    using assms get_compliance_status_failed [of srv project_id] by auto
  from get_compliance_status_fetched [OF ok] assms(1)
  have keys: "map fst st = STATUS_KEYS" by auto
  then have "length (map fst st) = length STATUS_KEYS" by simp
  then have "length st = 8" by (simp add: STATUS_KEYS_def)
  with keys show ?thesis by (simp add: STATUS_KEYS_def)
qed

theorem nonempty_status_has_the_eight_keys_witness:
  "map fst [(''README.md'', True), (''CONTRIBUTING.md'', True), (''CHANGELOG.md'', True),
            (''LICENSE'', True), (''.gitlab/issue_templates'', False),
            (''.gitlab/merge_request_templates'', True), (''description_present'', False),
            (''tags_present'', True)] = STATUS_KEYS
   \<and> fst (get_compliance_status demo_server ''7'') =
       Inr [(''README.md'', True), (''CONTRIBUTING.md'', True), (''CHANGELOG.md'', True),
            (''LICENSE'', True), (''.gitlab/issue_templates'', False),
            (''.gitlab/merge_request_templates'', True), (''description_present'', False),
            (''tags_present'', True)]"
proof -
  have run: "fst (get_compliance_status demo_server ''7'') =
       Inr [(''README.md'', True), (''CONTRIBUTING.md'', True), (''CHANGELOG.md'', True),
            (''LICENSE'', True), (''.gitlab/issue_templates'', False),
            (''.gitlab/merge_request_templates'', True), (''description_present'', False),
            (''tags_present'', True)]"
    by code_simp
  from nonempty_status_has_the_eight_keys [OF run] run
  show ?thesis by (simp add: STATUS_KEYS_def)
qed

text \<open>
  C10.  \<^verbatim>\<open>get_compliance_status\<close> never raises.  When the project's record was
  fetched, the status has all eight keys; a description that is missing or
  \<^verbatim>\<open>null\<close> gives \<^verbatim>\<open>description_present = False\<close>, and a tag list that is missing or
  \<^verbatim>\<open>null\<close> gives \<^verbatim>\<open>tags_present = False\<close>, its length never being taken.
\<close>

theorem missing_metadata_fields_do_not_raise:
  "\<exists>st. fst (get_compliance_status srv project_id) = Inr st
     \<and> (fst (project_endpoint srv project_id) = 200 \<longrightarrow>
          map fst st = STATUS_KEYS
          \<and> (description (snd (project_endpoint srv project_id)) \<in> {Absent, Null} \<longrightarrow>
               map_of st ''description_present'' = Some False)
          \<and> (tag_list (snd (project_endpoint srv project_id)) \<in> {Absent, Null} \<longrightarrow>
               map_of st ''tags_present'' = Some False
               \<and> tags_present_value (dict_get (tag_list (snd (project_endpoint srv project_id))))
                   = Inr False))"
proof (cases "fst (project_endpoint srv project_id) = 200")
  case False
  then show ?thesis by (simp add: get_compliance_status_failed)
next
  case True
  from get_compliance_status_fetched [OF True] obtain st where
    st: "fst (get_compliance_status srv project_id) = Inr st" "map fst st = STATUS_KEYS"
      "map_of st ''description_present''
         = Some (py_bool (dict_get (description (snd (project_endpoint srv project_id)))))"
      "Inr (the (map_of st ''tags_present''))
         = tags_present_value (dict_get (tag_list (snd (project_endpoint srv project_id))))"
    by blast
  have "''tags_present'' \<in> set (map fst st)"
    using st(2) by (simp add: STATUS_KEYS_def)
  then obtain b where b: "map_of st ''tags_present'' = Some b"
    by (metis map_of_eq_None_iff not_Some_eq set_map)
  have d: "description (snd (project_endpoint srv project_id)) \<in> {Absent, Null} \<longrightarrow>
           map_of st ''description_present'' = Some False"
    using st(3) by (auto simp: dict_get_def py_bool_def)
  have t: "tag_list (snd (project_endpoint srv project_id)) \<in> {Absent, Null} \<longrightarrow>
           map_of st ''tags_present'' = Some False
           \<and> tags_present_value (dict_get (tag_list (snd (project_endpoint srv project_id))))
               = Inr False"
    using st(4) b by (auto simp: dict_get_def tags_present_value_None)
  show ?thesis using st(1,2) d t True by blast
qed

theorem missing_metadata_fields_do_not_raise_witness:
  "fst (project_endpoint demo_server ''8'') = 200
   \<and> description (snd (project_endpoint demo_server ''8'')) \<in> {Absent, Null}
   \<and> tag_list (snd (project_endpoint demo_server ''8'')) \<in> {Absent, Null}
   \<and> (\<exists>st. fst (get_compliance_status demo_server ''8'') = Inr st
         \<and> map fst st = STATUS_KEYS
         \<and> map_of st ''description_present'' = Some False
         \<and> map_of st ''tags_present'' = Some False)"
proof -
  have h: "fst (project_endpoint demo_server ''8'') = 200"
    "description (snd (project_endpoint demo_server ''8'')) \<in> {Absent, Null}"
    "tag_list (snd (project_endpoint demo_server ''8'')) \<in> {Absent, Null}"
    by (simp_all add: demo_server_def bare_project_def)
  from missing_metadata_fields_do_not_raise [of demo_server "''8''"] h
  show ?thesis by blast
qed

section \<open>Template matching\<close>















section \<open>File presence\<close>

lemma file_exists_eq:
  "file_exists srv project_id file_path =
     (if on_branch srv project_id file_path ''master''
      then (True, [GetFile project_id (quote file_path) ''master''])
      else (on_branch srv project_id file_path ''main'',
            [GetFile project_id (quote file_path) ''master'',
             GetFile project_id (quote file_path) ''main'']))"
  by (simp add: file_exists_def on_branch_def)

lemma fst_file_exists:
  "fst (file_exists srv project_id file_path) =
     (on_branch srv project_id file_path ''master'' \<or> on_branch srv project_id file_path ''main'')"
  by (simp add: file_exists_eq)

lemma file_exists_any_eq:
  "file_exists_any srv project_id vs =
     (list_ex (\<lambda>v. fst (file_exists srv project_id v)) vs,
      concat (map (\<lambda>v. snd (file_exists srv project_id v))
                  (upto_first (\<lambda>v. fst (file_exists srv project_id v)) vs)))"
  by (induction vs) (simp_all add: case_prod_beta Let_def)

lemma variations_changelog:
  "''CHANGELOG.md'' # ''CHANGELOG'' # variations ''CHANGELOG'' = changelog_candidates"
  by (simp add: variations_def changelog_candidates_def string_defs)

lemma file_exists_flexible_changelog:
  "file_exists_flexible srv project_id ''CHANGELOG.md'' =
     file_exists_any srv project_id changelog_candidates"
proof -
  have "file_exists_flexible srv project_id ''CHANGELOG.md'' =
     file_exists_any srv project_id (''CHANGELOG.md'' # ''CHANGELOG'' # variations ''CHANGELOG'')"
    by (simp add: file_exists_flexible_def FLEXIBLE_EXTENSION_FILES_def case_prod_beta Let_def)
  then show ?thesis by (simp only: variations_changelog)
qed

text \<open>
  C5, as the code has it.  \<^verbatim>\<open>file_exists\<close> looks a path up on \<^verbatim>\<open>master\<close> first and on
  \<^verbatim>\<open>main\<close> only when \<^verbatim>\<open>master\<close> did not answer 200; it returns true at the first
  answer 200 and false when both lookups fail.  So when the four required files
  are on \<^verbatim>\<open>main\<close>, it returns true for each of them, and the first request it sends
  for each is the lookup on \<^verbatim>\<open>master\<close>.
\<close>

theorem file_exists_probes_master_then_main:
  "file_exists srv project_id file_path =
     (if on_branch srv project_id file_path ''master''
      then (True, [GetFile project_id (quote file_path) ''master''])
      else if on_branch srv project_id file_path ''main''
      then (True, [GetFile project_id (quote file_path) ''master'',
                   GetFile project_id (quote file_path) ''main''])
      else (False, [GetFile project_id (quote file_path) ''master'',
                    GetFile project_id (quote file_path) ''main'']))
   \<and> ((\<forall>f\<in>set REQUIRED_FILES. on_branch srv project_id f ''main'') \<longrightarrow>
        (\<forall>f\<in>set REQUIRED_FILES.
           fst (file_exists srv project_id f)
           \<and> hd (snd (file_exists srv project_id f)) = GetFile project_id (quote f) ''master''))"
  by (simp add: file_exists_eq)

theorem file_exists_probes_master_then_main_witness:
  "list_all (\<lambda>f. on_branch main_only_server ''7'' f ''main'') REQUIRED_FILES
   \<and> list_all (\<lambda>f. fst (file_exists main_only_server ''7'' f)
         \<and> hd (snd (file_exists main_only_server ''7'' f)) = GetFile ''7'' (quote f) ''master'')
       REQUIRED_FILES
   \<and> \<not> on_branch main_only_server ''7'' ''LICENSE'' ''master''
   \<and> file_exists main_only_server ''7'' ''LICENSE'' =
       (True, [GetFile ''7'' (quote ''LICENSE'') ''master'',
               GetFile ''7'' (quote ''LICENSE'') ''main''])"
proof -
  have h: "\<forall>f\<in>set REQUIRED_FILES. on_branch main_only_server ''7'' f ''main''"
    by (simp add: REQUIRED_FILES_def on_branch_def main_only_server_def demo_server_def string_defs)
  have m: "\<not> on_branch main_only_server ''7'' ''LICENSE'' ''master''"
    by (simp add: on_branch_def main_only_server_def demo_server_def)
  have n: "on_branch main_only_server ''7'' ''LICENSE'' ''main''"
    using h by (simp add: REQUIRED_FILES_def)
  from file_exists_probes_master_then_main [of main_only_server "''7''" "''LICENSE''"] h m n
  show ?thesis by (simp add: list_all_iff)
qed

theorem file_on_main_is_probed_on_master_counterexample:
  "on_branch main_only_server ''7'' ''README.md'' ''main''
   \<and> on_branch main_only_server ''7'' ''CONTRIBUTING.md'' ''main''
   \<and> on_branch main_only_server ''7'' ''CHANGELOG.md'' ''main''
   \<and> on_branch main_only_server ''7'' ''LICENSE'' ''main''
   \<and> file_exists main_only_server ''7'' ''README.md'' =
       (True, [GetFile ''7'' ''README.md'' ''master'', GetFile ''7'' ''README.md'' ''main''])"
  by code_simp

text \<open>
  C7.  \<^verbatim>\<open>file_exists_flexible\<close> on \<^verbatim>\<open>CHANGELOG.md\<close> looks up the path itself, then the
  bare name, then the variations in their fixed order, stops at the first file
  found and returns whether one was found.  A project that has \<^verbatim>\<open>changelog.txt\<close>
  gets the answer true; when that file is the only candidate it has, the paths
  looked up are the seven candidates up to \<^verbatim>\<open>changelog.txt\<close>.
\<close>

theorem changelog_is_found_under_its_variants:
  "fst (file_exists_flexible srv project_id ''CHANGELOG.md'')
     = list_ex (\<lambda>p. fst (file_exists srv project_id p)) changelog_candidates
   \<and> snd (file_exists_flexible srv project_id ''CHANGELOG.md'')
     = concat (map (\<lambda>p. snd (file_exists srv project_id p))
         (upto_first (\<lambda>p. fst (file_exists srv project_id p)) changelog_candidates))
   \<and> (on_branch srv project_id ''changelog.txt'' ''master''
        \<or> on_branch srv project_id ''changelog.txt'' ''main'' \<longrightarrow>
        fst (file_exists_flexible srv project_id ''CHANGELOG.md''))
   \<and> ((\<forall>p\<in>set changelog_candidates.
          (on_branch srv project_id p ''master'' \<or> on_branch srv project_id p ''main'')
            = (p = ''changelog.txt'')) \<longrightarrow>
        fst (file_exists_flexible srv project_id ''CHANGELOG.md'')
        \<and> upto_first (\<lambda>p. fst (file_exists srv project_id p)) changelog_candidates
            = [''CHANGELOG.md'', ''CHANGELOG'', ''CHANGELOG'', ''changelog'',
               ''CHANGELOG.txt'', ''CHANGELOG.txt'', ''changelog.txt''])"
proof -
  have a: "fst (file_exists_flexible srv project_id ''CHANGELOG.md'')
     = list_ex (\<lambda>p. fst (file_exists srv project_id p)) changelog_candidates"
    by (simp add: file_exists_flexible_changelog file_exists_any_eq)
  have b: "snd (file_exists_flexible srv project_id ''CHANGELOG.md'')
     = concat (map (\<lambda>p. snd (file_exists srv project_id p))
         (upto_first (\<lambda>p. fst (file_exists srv project_id p)) changelog_candidates))"
    by (simp add: file_exists_flexible_changelog file_exists_any_eq)
  have c: "on_branch srv project_id ''changelog.txt'' ''master''
        \<or> on_branch srv project_id ''changelog.txt'' ''main'' \<longrightarrow>
        fst (file_exists_flexible srv project_id ''CHANGELOG.md'')"
    unfolding a by (simp add: changelog_candidates_def fst_file_exists)
  have d: "(\<forall>p\<in>set changelog_candidates.
          (on_branch srv project_id p ''master'' \<or> on_branch srv project_id p ''main'')
            = (p = ''changelog.txt'')) \<longrightarrow>
        fst (file_exists_flexible srv project_id ''CHANGELOG.md'')
        \<and> upto_first (\<lambda>p. fst (file_exists srv project_id p)) changelog_candidates
            = [''CHANGELOG.md'', ''CHANGELOG'', ''CHANGELOG'', ''changelog'',
               ''CHANGELOG.txt'', ''CHANGELOG.txt'', ''changelog.txt'']"
    unfolding a by (simp add: changelog_candidates_def fst_file_exists)
  from a b c d show ?thesis by blast
qed

theorem changelog_is_found_under_its_variants_witness:
  "list_all (\<lambda>p. (on_branch demo_server ''7'' p ''master'' \<or> on_branch demo_server ''7'' p ''main'')
                   = (p = ''changelog.txt'')) changelog_candidates
   \<and> fst (file_exists_flexible demo_server ''7'' ''CHANGELOG.md'')
   \<and> upto_first (\<lambda>p. fst (file_exists demo_server ''7'' p)) changelog_candidates
       = [''CHANGELOG.md'', ''CHANGELOG'', ''CHANGELOG'', ''changelog'',
          ''CHANGELOG.txt'', ''CHANGELOG.txt'', ''changelog.txt'']"
proof -
  have h: "\<forall>p\<in>set changelog_candidates.
      (on_branch demo_server ''7'' p ''master'' \<or> on_branch demo_server ''7'' p ''main'')
        = (p = ''changelog.txt'')"
    by (simp add: changelog_candidates_def on_branch_def demo_server_def string_defs)
  from changelog_is_found_under_its_variants [of demo_server "''7''"] h
  have "fst (file_exists_flexible demo_server ''7'' ''CHANGELOG.md'')
   \<and> upto_first (\<lambda>p. fst (file_exists demo_server ''7'' p)) changelog_candidates
       = [''CHANGELOG.md'', ''CHANGELOG'', ''CHANGELOG'', ''changelog'',
          ''CHANGELOG.txt'', ''CHANGELOG.txt'', ''changelog.txt'']"
    by blast
  with h show ?thesis by (simp add: list_all_iff)
qed

section \<open>Pagination\<close>

lemma pages_loop_step:
  "pages_loop srv params page all_projects =
     (if fst (page_response srv params page) \<noteq> 200 then (all_projects, [page_request params page])
      else if length (snd (page_response srv params page)) < per_page
      then (all_projects @ snd (page_response srv params page), [page_request params page])
      else if 1000 \<le> page
      then (all_projects @ snd (page_response srv params page),
            [page_request params page, Warning pagination_warning])
      else (fst (pages_loop srv params (Suc page) (all_projects @ snd (page_response srv params page))),
            page_request params page
              # snd (pages_loop srv params (Suc page) (all_projects @ snd (page_response srv params page)))))"
  by (subst pages_loop.simps)
     (auto simp: page_response_def page_request_def Let_def case_prod_beta per_page_def)

declare pages_loop.simps [simp del]

lemma pages_loop_requests:
  "length (requests (snd (pages_loop srv params page all_projects))) \<le> Suc (1000 - page)"
proof (induction "1000 - page" arbitrary: page all_projects)
  case 0
  then show ?case
    by (subst pages_loop_step) (simp add: requests_def is_request_def page_request_def)
next
  case (Suc n)
  then have n: "n = 1000 - Suc page" and m: "1000 - page = Suc (1000 - Suc page)"
    by simp_all
  have r: "is_request (page_request params page)"
    by (simp add: is_request_def page_request_def)
  from Suc.hyps(1) [OF n, of "all_projects @ snd (page_response srv params page)"]
  show ?case
    by (subst pages_loop_step) (simp add: requests_def r m)
qed

lemma pages_loop_length:
  assumes "\<forall>n. length (snd (page_response srv params n)) \<le> per_page"
  shows "length (fst (pages_loop srv params page all_projects))
           \<le> length all_projects + per_page * Suc (1000 - page)"
proof (induction "1000 - page" arbitrary: page all_projects)
  case 0
  then show ?case
    using assms [rule_format, of page] by (subst pages_loop_step) simp
next
  case (Suc n)
  then have n: "n = 1000 - Suc page" and m: "1000 - page = Suc (1000 - Suc page)"
    by simp_all
  have le: "length (snd (page_response srv params page)) \<le> per_page"
    using assms by simp
  from Suc.hyps(1) [OF n, of "all_projects @ snd (page_response srv params page)"] le
  show ?case
    by (subst pages_loop_step) (simp add: m)
qed

text \<open>While the pages are full the loop goes on to the next page.\<close>

lemma pages_loop_full_pages:
  assumes "i \<le> k" and "k \<le> 1000" and "\<forall>n. i \<le> n \<and> n < k \<longrightarrow> full_page srv params n"
  shows "pages_loop srv params i acc =
           (fst (pages_loop srv params k (acc @ pages_body srv params i k)),
            map (page_request params) [i..<k]
              @ snd (pages_loop srv params k (acc @ pages_body srv params i k)))"
  using assms
proof (induction "k - i" arbitrary: i acc)
  case 0
  then show ?case by (simp add: pages_body_def)
next
  case (Suc d)
  then have lt: "i < k" and full: "full_page srv params i" and d: "d = k - Suc i"
    by auto
  have next_full: "\<forall>n. Suc i \<le> n \<and> n < k \<longrightarrow> full_page srv params n"
    using Suc.prems(3) by auto
  have body: "pages_body srv params i k
               = snd (page_response srv params i) @ pages_body srv params (Suc i) k"
    using lt by (simp add: pages_body_def upt_conv_Cons)
  have reqs: "map (page_request params) [i..<k]
               = page_request params i # map (page_request params) [Suc i..<k]"
    using lt by (simp add: upt_conv_Cons)
  from Suc.hyps(1) [OF d _ Suc.prems(2) next_full,
      of "acc @ snd (page_response srv params i)"] lt
  have ih: "pages_loop srv params (Suc i) (acc @ snd (page_response srv params i)) =
      (fst (pages_loop srv params k (acc @ pages_body srv params i k)),
       map (page_request params) [Suc i..<k]
         @ snd (pages_loop srv params k (acc @ pages_body srv params i k)))"
    by (simp add: body)
  have "i < 1000" using lt Suc.prems(2) by simp
  with full show ?case
    by (subst pages_loop_step) (simp add: full_page_def ih reqs)
qed

lemma get_all_stops_at_failure:
  assumes "1 \<le> k" "k \<le> 1000" "\<forall>n. 1 \<le> n \<and> n < k \<longrightarrow> full_page srv params n"
    and "fst (page_response srv params k) \<noteq> 200"
  shows "get_all_projects_with_pagination srv params =
           (pages_body srv params 1 k, map (page_request params) [1..<Suc k])"
proof -
  have "pages_loop srv params k (pages_body srv params 1 k)
          = (pages_body srv params 1 k, [page_request params k])"
    using assms(4) by (subst pages_loop_step) simp
  with pages_loop_full_pages [OF assms(1,2,3), of "[]"] assms(1) show ?thesis
    by (simp add: get_all_projects_with_pagination_def)
qed

lemma get_all_stops_at_short_page:
  assumes "1 \<le> k" "k \<le> 1000" "\<forall>n. 1 \<le> n \<and> n < k \<longrightarrow> full_page srv params n"
    and "fst (page_response srv params k) = 200"
    and "length (snd (page_response srv params k)) < per_page"
  shows "get_all_projects_with_pagination srv params =
           (pages_body srv params 1 (Suc k), map (page_request params) [1..<Suc k])"
proof -
  have "pages_loop srv params k (pages_body srv params 1 k)
          = (pages_body srv params 1 k @ snd (page_response srv params k), [page_request params k])"
    using assms(4,5) by (subst pages_loop_step) simp
  with pages_loop_full_pages [OF assms(1,2,3), of "[]"] assms(1) show ?thesis
    by (simp add: get_all_projects_with_pagination_def pages_body_def)
qed

lemma get_all_stops_at_limit:
  assumes "\<forall>n. 1 \<le> n \<and> n \<le> 1000 \<longrightarrow> full_page srv params n"
  shows "get_all_projects_with_pagination srv params =
           (pages_body srv params 1 1001,
            map (page_request params) [1..<1001] @ [Warning pagination_warning])"
proof -
  have f: "\<forall>n. 1 \<le> n \<and> n < 1000 \<longrightarrow> full_page srv params n" and l: "full_page srv params 1000"
    using assms by simp_all
  have "pages_loop srv params 1000 (pages_body srv params 1 1000)
          = (pages_body srv params 1 1000 @ snd (page_response srv params 1000),
             [page_request params 1000, Warning pagination_warning])"
    using l by (subst pages_loop_step) (simp add: full_page_def)
  moreover have "[1..<1001] = [1..<1000] @ [1000::nat]"
    using upt_Suc_append [of 1 1000] by simp
  ultimately show ?thesis
    using pages_loop_full_pages [of 1 1000, OF _ _ f, of "[]"]
    by (simp add: get_all_projects_with_pagination_def pages_body_def)
qed

lemma three_pages: "[Suc 0..<4] = [Suc 0, 2, 3]"
  by code_simp

lemma get_all_250:
  assumes "\<forall>n. page_response srv params n = (200, page_of items per_page n)"
    and "length items = 250"
  shows "get_all_projects_with_pagination srv params =
           (items, [page_request params 1, page_request params 2, page_request params 3])"
proof -
  have full: "\<forall>n. 1 \<le> n \<and> n < 3 \<longrightarrow> full_page srv params n"
  proof (intro allI impI)
    fix n :: nat assume "1 \<le> n \<and> n < 3"
    then have "n = 1 \<or> n = 2" by auto
    then show "full_page srv params n"
      using assms by (auto simp: full_page_def page_of_def per_page_def)
  qed
  have short: "fst (page_response srv params 3) = 200"
    "length (snd (page_response srv params 3)) < per_page"
    using assms by (simp_all add: page_of_def per_page_def)
  have "take 100 items @ take 100 (drop 100 items) @ take 100 (drop 200 items) = items"
  proof -
    have "take 100 (drop 200 items) = drop 200 items"
      using assms(2) by simp
    moreover have "take 100 (drop 100 items) @ drop 200 items = drop 100 items"
      using append_take_drop_id [of 100 "drop 100 items"] by simp
    ultimately show ?thesis by simp
  qed
  then have body: "pages_body srv params 1 4 = items"
    using assms(1) by (simp add: pages_body_def three_pages page_of_def per_page_def)
  from get_all_stops_at_short_page [of 3, OF _ _ full short] body show ?thesis
    by (simp add: three_pages)
qed

lemma oversized_length:
  "length (fst (get_all_projects_with_pagination oversized_server membership_params)) = 101000"
proof -
  have full: "\<forall>n. 1 \<le> n \<and> n \<le> 1000 \<longrightarrow> full_page oversized_server membership_params n"
    by (simp add: full_page_def page_response_def oversized_server_def per_page_def)
  have "pages_body oversized_server membership_params 1 1001
          = concat (map (\<lambda>n. replicate 101 demo_project) [1..<1001])"
    by (simp add: pages_body_def page_response_def oversized_server_def)
  then have "length (pages_body oversized_server membership_params 1 1001) = 101000"
    by (simp add: length_concat comp_def sum_list_triv)
  with get_all_stops_at_limit [OF full] show ?thesis by simp
qed

lemma requested_page_current [simp]: "requested_page (current_params params n) = n"
  by (simp add: requested_page_def current_params_def update_conv')

lemma requested_per_page_current [simp]: "requested_per_page (current_params params n) = per_page"
  by (simp add: requested_per_page_def current_params_def update_conv')

lemma distinct_listing_250: "distinct listing_250"
  unfolding listing_250_def
  by (rule distinct_map [THEN iffD2]) (simp add: inj_on_def numbered_project_def)

text \<open>
  C6.  When the listing endpoint serves 250 items in pages of 100, the loop
  returns exactly these items (so nothing twice that was not there twice) with
  three page requests.  In general, after full pages 1 to \<open>k - 1\<close> the loop stops
  at page \<open>k\<close> when that page has fewer than 100 items, keeping them; it stops
  when the request for page \<open>k\<close> fails, keeping what the pages before gave; and
  after a full page 1000 it stops with the warning.
\<close>

theorem pagination_collects_until_a_short_page:
  "((\<forall>n. page_response srv params n = (200, page_of items 100 n)) \<and> length items = 250 \<longrightarrow>
      get_all_projects_with_pagination srv params
        = (items, [page_request params 1, page_request params 2, page_request params 3])
      \<and> (distinct items \<longrightarrow> distinct (fst (get_all_projects_with_pagination srv params))))
   \<and> (1 \<le> k \<and> k \<le> 1000 \<and> (\<forall>n. 1 \<le> n \<and> n < k \<longrightarrow> full_page srv params n) \<longrightarrow>
        (fst (page_response srv params k) = 200
           \<and> length (snd (page_response srv params k)) < 100 \<longrightarrow>
           get_all_projects_with_pagination srv params
             = (pages_body srv params 1 (Suc k), map (page_request params) [1..<Suc k]))
        \<and> (fst (page_response srv params k) \<noteq> 200 \<longrightarrow>
           get_all_projects_with_pagination srv params
             = (pages_body srv params 1 k, map (page_request params) [1..<Suc k]))
        \<and> (k = 1000 \<and> full_page srv params 1000 \<longrightarrow>
           get_all_projects_with_pagination srv params
             = (pages_body srv params 1 1001,
                map (page_request params) [1..<1001] @ [Warning pagination_warning])))"
proof -
  have a: "(\<forall>n. page_response srv params n = (200, page_of items 100 n)) \<and> length items = 250 \<longrightarrow>
      get_all_projects_with_pagination srv params
        = (items, [page_request params 1, page_request params 2, page_request params 3])
      \<and> (distinct items \<longrightarrow> distinct (fst (get_all_projects_with_pagination srv params)))"
    using get_all_250 [of srv params items] by (simp add: per_page_def)
  have b: "1 \<le> k \<and> k \<le> 1000 \<and> (\<forall>n. 1 \<le> n \<and> n < k \<longrightarrow> full_page srv params n) \<longrightarrow>
        (fst (page_response srv params k) = 200
           \<and> length (snd (page_response srv params k)) < 100 \<longrightarrow>
           get_all_projects_with_pagination srv params
             = (pages_body srv params 1 (Suc k), map (page_request params) [1..<Suc k]))"
    using get_all_stops_at_short_page [of k srv params] by (simp add: per_page_def)
  have c: "1 \<le> k \<and> k \<le> 1000 \<and> (\<forall>n. 1 \<le> n \<and> n < k \<longrightarrow> full_page srv params n) \<longrightarrow>
        (fst (page_response srv params k) \<noteq> 200 \<longrightarrow>
           get_all_projects_with_pagination srv params
             = (pages_body srv params 1 k, map (page_request params) [1..<Suc k]))"
    using get_all_stops_at_failure [of k srv params] by simp
  have d: "1 \<le> k \<and> k \<le> 1000 \<and> (\<forall>n. 1 \<le> n \<and> n < k \<longrightarrow> full_page srv params n) \<longrightarrow>
        (k = 1000 \<and> full_page srv params 1000 \<longrightarrow>
           get_all_projects_with_pagination srv params
             = (pages_body srv params 1 1001,
                map (page_request params) [1..<1001] @ [Warning pagination_warning]))"
  proof (intro impI)
    assume h: "1 \<le> k \<and> k \<le> 1000 \<and> (\<forall>n. 1 \<le> n \<and> n < k \<longrightarrow> full_page srv params n)"
      and l: "k = 1000 \<and> full_page srv params 1000"
    have "\<forall>n. 1 \<le> n \<and> n \<le> 1000 \<longrightarrow> full_page srv params n"
    proof (intro allI impI)
      fix n :: nat assume "1 \<le> n \<and> n \<le> 1000"
      then have "n < 1000 \<or> n = 1000" by auto
      with h l \<open>1 \<le> n \<and> n \<le> 1000\<close> show "full_page srv params n" by auto
    qed
    then show "get_all_projects_with_pagination srv params
             = (pages_body srv params 1 1001,
                map (page_request params) [1..<1001] @ [Warning pagination_warning])"
      by (rule get_all_stops_at_limit)
  qed
  from a b c d show ?thesis by blast
qed

theorem pagination_collects_until_a_short_page_witness:
  "(\<forall>n. page_response paged_server membership_params n = (200, page_of listing_250 100 n))
   \<and> length listing_250 = 250 \<and> distinct listing_250
   \<and> get_all_projects_with_pagination paged_server membership_params
       = (listing_250, [page_request membership_params 1, page_request membership_params 2,
                        page_request membership_params 3])
   \<and> distinct (fst (get_all_projects_with_pagination paged_server membership_params))
   \<and> full_page failing_server membership_params 1
   \<and> fst (page_response failing_server membership_params 2) \<noteq> 200
   \<and> get_all_projects_with_pagination failing_server membership_params
       = (pages_body failing_server membership_params 1 2,
          map (page_request membership_params) [1..<Suc 2])
   \<and> list_all (full_page endless_server membership_params) [1..<1000]
   \<and> full_page endless_server membership_params 1000
   \<and> get_all_projects_with_pagination endless_server membership_params
       = (pages_body endless_server membership_params 1 1001,
          map (page_request membership_params) [1..<1001] @ [Warning pagination_warning])"
proof -
  have h1: "\<forall>n. page_response paged_server membership_params n = (200, page_of listing_250 100 n)"
    by (simp add: page_response_def paged_server_def per_page_def)
  have h2: "length listing_250 = 250"
    by (simp add: listing_250_def)
  note h3 = distinct_listing_250
  have f1: "full_page failing_server membership_params 1"
    by (simp add: full_page_def page_response_def failing_server_def per_page_def)
  have f1': "\<forall>n. 1 \<le> n \<and> n < 2 \<longrightarrow> full_page failing_server membership_params n"
  proof (intro allI impI)
    fix n :: nat assume "1 \<le> n \<and> n < 2"
    then have "n = 1" by auto
    with f1 show "full_page failing_server membership_params n" by simp
  qed
  have f2: "fst (page_response failing_server membership_params 2) \<noteq> 200"
    by (simp add: page_response_def failing_server_def)
  have e1: "\<forall>n. 1 \<le> n \<and> n < 1000 \<longrightarrow> full_page endless_server membership_params n"
    by (simp add: full_page_def page_response_def endless_server_def per_page_def)
  have e2: "full_page endless_server membership_params 1000"
    by (simp add: full_page_def page_response_def endless_server_def per_page_def)
  from pagination_collects_until_a_short_page [of paged_server membership_params listing_250 1]
    h1 h2 h3
  have r1: "get_all_projects_with_pagination paged_server membership_params
       = (listing_250, [page_request membership_params 1, page_request membership_params 2,
                        page_request membership_params 3])
     \<and> distinct (fst (get_all_projects_with_pagination paged_server membership_params))"
    by blast
  from pagination_collects_until_a_short_page [of failing_server membership_params "[]" 2]
    f1' f2
  have r2: "get_all_projects_with_pagination failing_server membership_params
       = (pages_body failing_server membership_params 1 2,
          map (page_request membership_params) [1..<Suc 2])"
    by simp
  from pagination_collects_until_a_short_page [of endless_server membership_params "[]" 1000]
    e1 e2
  have r3: "get_all_projects_with_pagination endless_server membership_params
       = (pages_body endless_server membership_params 1 1001,
          map (page_request membership_params) [1..<1001] @ [Warning pagination_warning])"
    by simp
  from e1 have e1': "list_all (full_page endless_server membership_params) [1..<1000]"
    by (simp add: list_all_iff)
  from h1 h2 h3 r1 f1 f2 r2 e1' e2 r3 show ?thesis by blast
qed

text \<open>
  C9, as the code has it.  \<^verbatim>\<open>get_all_projects_with_pagination\<close> returns for every
  platform (the loop is a total function: the number of pages left up to 1001
  decreases) and sends at most 1000 page requests.  When no page holds more than
  100 items it returns at most 100000 items; a platform that puts more items on
  a page is not cut short.
\<close>

theorem pagination_sends_at_most_1000_requests:
  "length (requests (snd (get_all_projects_with_pagination srv params))) \<le> 1000
   \<and> ((\<forall>n. length (snd (page_response srv params n)) \<le> 100) \<longrightarrow>
        length (fst (get_all_projects_with_pagination srv params)) \<le> 100000)"
proof -
  have "length (requests (snd (pages_loop srv params 1 []))) \<le> Suc (1000 - 1)"
    by (rule pages_loop_requests)
  moreover have "(\<forall>n. length (snd (page_response srv params n)) \<le> 100) \<longrightarrow>
        length (fst (pages_loop srv params 1 [])) \<le> 100000"
    using pages_loop_length [of srv params 1 "[]"] by (simp add: per_page_def)
  ultimately show ?thesis
    by (simp add: get_all_projects_with_pagination_def)
qed

theorem pagination_sends_at_most_1000_requests_witness:
  "(\<forall>n. length (snd (page_response endless_server membership_params n)) \<le> 100)
   \<and> length (requests (snd (get_all_projects_with_pagination endless_server membership_params)))
       \<le> 1000
   \<and> length (fst (get_all_projects_with_pagination endless_server membership_params)) \<le> 100000"
proof -
  have h: "\<forall>n. length (snd (page_response endless_server membership_params n)) \<le> 100"
    by (simp add: page_response_def endless_server_def)
  from pagination_sends_at_most_1000_requests [of endless_server membership_params] h
  show ?thesis by blast
qed

theorem oversized_pages_exceed_100000_items_counterexample:
  "length (snd (page_response oversized_server membership_params 1)) = 101
   \<and> length (fst (get_all_projects_with_pagination oversized_server membership_params)) = 101000
   \<and> \<not> length (fst (get_all_projects_with_pagination oversized_server membership_params))
         \<le> 100000"
  using oversized_length by (simp add: page_response_def oversized_server_def)

section \<open>Classification of a URL\<close>




















text \<open>
  The three conditions on the path are needed: a string that ends in \<^verbatim>\<open>/-\<close> forms
  a marker with the slash that follows it, so the lookups differ.
\<close>

lemma path_ending_in_a_hyphen_segment:
  "snd (determine_input_type_and_process demo_server ''https://code.swecha.org/g/-/-/x'')
     = [GetProject ''g'']
   \<and> snd (determine_input_type_and_process demo_server ''https://code.swecha.org/g/-'')
     = [GetProject ''g%2F-'']"
  by code_simp

section \<open>Classification of a user name\<close>

lemma get_contributed_projects_found:
  assumes "fst (users_endpoint srv username) = 200" and "snd (users_endpoint srv username) \<noteq> []"
  shows "get_contributed_projects srv username =
           (fst (get_all_projects_with_pagination srv membership_params),
            GetUsers username # snd (get_all_projects_with_pagination srv membership_params))"
  using assms by (simp add: get_contributed_projects_def Let_def case_prod_beta)

text \<open>
  C2, what the code does.  An input that neither contains the base URL nor is a
  number is looked up as a user name, and an empty project list gives the error
  \<^verbatim>\<open>No projects found for username\<close> with the input.  When the user is found, the
  project list is the paginated listing requested with \<^verbatim>\<open>membership\<close> and
  \<^verbatim>\<open>order_by\<close> only: the user's id is read and not sent, so every user that
  exists gets the same list.
\<close>

theorem contributed_projects_do_not_depend_on_the_user:
  "(\<not> contains (strip raw) GITLAB_URL \<and> \<not> isdigit (strip raw) \<longrightarrow>
      fst (determine_input_type_and_process srv raw)
        = (if fst (get_contributed_projects srv (strip raw)) \<noteq> []
           then Projects (fst (get_contributed_projects srv (strip raw)))
           else Error (''No projects found for username: '' @ strip raw)))
   \<and> (fst (users_endpoint srv u) = 200 \<and> snd (users_endpoint srv u) \<noteq> [] \<longrightarrow>
        get_contributed_projects srv u
          = (fst (get_all_projects_with_pagination srv membership_params),
             GetUsers u # snd (get_all_projects_with_pagination srv membership_params)))
   \<and> (fst (users_endpoint srv u) = 200 \<and> snd (users_endpoint srv u) \<noteq> []
        \<and> fst (users_endpoint srv u') = 200 \<and> snd (users_endpoint srv u') \<noteq> [] \<longrightarrow>
        fst (get_contributed_projects srv u) = fst (get_contributed_projects srv u'))"
proof -
  have a: "\<not> contains (strip raw) GITLAB_URL \<and> \<not> isdigit (strip raw) \<longrightarrow>
      fst (determine_input_type_and_process srv raw)
        = (if fst (get_contributed_projects srv (strip raw)) \<noteq> []
           then Projects (fst (get_contributed_projects srv (strip raw)))
           else Error (''No projects found for username: '' @ strip raw))"
    by (simp add: determine_input_type_and_process_def Let_def case_prod_beta)
  from a get_contributed_projects_found [of srv u] get_contributed_projects_found [of srv u']
  show ?thesis by simp
qed

theorem contributed_projects_do_not_depend_on_the_user_witness:
  "users_endpoint demo_server ''alice'' = (200, [\<lparr>user_id = 1\<rparr>])
   \<and> users_endpoint demo_server ''bob'' = (200, [\<lparr>user_id = 2\<rparr>])
   \<and> fst (get_contributed_projects demo_server ''alice'')
       = fst (get_contributed_projects demo_server ''bob'')
   \<and> \<not> contains (strip ''bob'') GITLAB_URL \<and> \<not> isdigit (strip ''bob'')
   \<and> fst (determine_input_type_and_process demo_server ''bob'')
       = (if fst (get_contributed_projects demo_server (strip ''bob'')) \<noteq> []
          then Projects (fst (get_contributed_projects demo_server (strip ''bob'')))
          else Error (''No projects found for username: '' @ strip ''bob''))"
proof -
  have h: "users_endpoint demo_server ''alice'' = (200, [\<lparr>user_id = 1\<rparr>])"
    "users_endpoint demo_server ''bob'' = (200, [\<lparr>user_id = 2\<rparr>])"
    by (simp_all add: demo_server_def)
  then have f: "fst (users_endpoint demo_server ''alice'') = 200"
    "snd (users_endpoint demo_server ''alice'') \<noteq> []"
    "fst (users_endpoint demo_server ''bob'') = 200"
    "snd (users_endpoint demo_server ''bob'') \<noteq> []"
    by simp_all
  have k: "\<not> contains (strip ''bob'') GITLAB_URL" "\<not> isdigit (strip ''bob'')"
    by (simp_all add: strip_def lstrip_def rstrip_def isspace_def GITLAB_URL_def isdigit_def
        is_digit_char_def)
  from contributed_projects_do_not_depend_on_the_user [of "''bob''" demo_server "''alice''" "''bob''"]
    f k
  have "fst (get_contributed_projects demo_server ''alice'')
          = fst (get_contributed_projects demo_server ''bob'')
     \<and> fst (determine_input_type_and_process demo_server ''bob'')
       = (if fst (get_contributed_projects demo_server (strip ''bob'')) \<noteq> []
          then Projects (fst (get_contributed_projects demo_server (strip ''bob'')))
          else Error (''No projects found for username: '' @ strip ''bob''))"
    by blast
  with h k show ?thesis by blast
qed

lemma bob_gets_the_listing_of_the_token:
  "determine_input_type_and_process demo_server ''bob''
     = (Projects [demo_project],
        [GetUsers ''bob'',
         GetProjects [(''membership'', PBool True), (''order_by'', PStr ''last_activity_at''),
                      (''page'', PInt 1), (''per_page'', PInt 100)]])"
  by code_simp

end
